theory Spec2Isabelle
  imports Main "HOL-Library.Multiset"
begin

section \<open>PulseConnect: requests, appointments, notifications and blood inventory\<close>

text \<open>
  A shallow embedding of the request, appointment, notification and inventory handlers of
  the PulseConnect front end. Every handler is a function of the state it touches (the
  rows of the remote tables, the component's local state), of the values it reads from
  its surroundings (the session, the clock) and of the reply of each remote call, and
  returns the new state with the toast it shows.
\<close>

subsection \<open>Blood-group compatibility (pages/Dashboard.tsx)\<close>

datatype js_error = TypeError

text \<open>The literal \<open>compat\<close> object of \<open>compatible\<close>: donor type to the patient types it serves.\<close>

definition compat :: "(string \<times> string list) list" where
  "compat =
    [(''O-'',  [''O-'', ''O+'', ''A-'', ''A+'', ''B-'', ''B+'', ''AB-'', ''AB+'']),
     (''O+'',  [''O+'', ''A+'', ''B+'', ''AB+'']),
     (''A-'',  [''A-'', ''A+'', ''AB-'', ''AB+'']),
     (''A+'',  [''A+'', ''AB+'']),
     (''B-'',  [''B-'', ''B+'', ''AB-'', ''AB+'']),
     (''B+'',  [''B+'', ''AB+'']),
     (''AB-'', [''AB-'', ''AB+'']),
     (''AB+'', [''AB+''])]"

text \<open>
  \<open>compat\<close> is a plain object, so a key that is not its own is looked up on
  \<open>Object.prototype\<close>. Each of these names yields a truthy value without an
  \<open>includes\<close> method, and the call \<open>.includes(patientType)\<close> throws.
\<close>

definition object_prototype_keys :: "string list" where
  "object_prototype_keys =
    [''constructor'', ''__proto__'', ''hasOwnProperty'', ''isPrototypeOf'',
     ''propertyIsEnumerable'', ''toLocaleString'', ''toString'', ''valueOf'',
     ''__defineGetter__'', ''__defineSetter__'', ''__lookupGetter__'', ''__lookupSetter__'']"

definition compatible :: "string \<Rightarrow> string \<Rightarrow> js_error + bool" where
  "compatible donorType patientType =
    (case map_of compat donorType of
       Some patients \<Rightarrow> Inr (patientType \<in> set patients)
     | None \<Rightarrow>
         if donorType \<in> set object_prototype_keys then Inl TypeError
         else Inr (patientType \<in> set []))"

text \<open>The eight ABO/Rh groups: the keys of \<open>compat\<close>, in its order.\<close>

definition blood_groups :: "string list" where
  "blood_groups = map fst compat"

subsection \<open>Remote tables and what a handler sees of its surroundings\<close>

text \<open>
  Instants (\<open>Date.now()\<close>, the ISO strings of \<open>toISOString()\<close>, the timestamp columns)
  are milliseconds since the epoch.
\<close>

type_synonym timestamp = int

text \<open>
  The reply of one awaited remote call: it took effect and \<open>error\<close> is null, it
  returned an \<open>error\<close> with a message and changed nothing, or the awaited promise
  rejected and changed nothing.
\<close>

datatype reply = Done | Refused string | Raised

datatype variant = Default | Destructive

text \<open>A toast: its title, its description and its variant.\<close>

datatype toast = Toast string string variant

text \<open>
  A row of \<open>requests\<close>: the fields of the \<open>Request\<close> interface of DonorRequestCard.tsx
  (without the joined \<open>hospital\<close>), and the two columns its updates write.
\<close>

record request =
  rq_id :: string
  rq_request_id :: string
  rq_hospital_id :: string
  rq_type :: string
  rq_blood_group :: string
  rq_units :: int
  rq_urgency :: string
  rq_patient_name :: string
  rq_patient_age :: "int option"
  rq_patient_gender :: "string option"
  rq_medical_condition :: "string option"
  rq_location :: string
  rq_notes :: "string option"
  rq_status :: string
  rq_created_at :: timestamp
  rq_donor_id :: "string option"
  rq_updated_at :: "timestamp option"

text \<open>A row of \<open>appointments\<close>: the columns the two inserts name, and the generated key.\<close>

record appointment =
  ap_id :: string
  ap_request_id :: "string option"
  ap_hospital_id :: string
  ap_donor_id :: string
  ap_appointment_date :: timestamp
  ap_appointment_time :: "string option"
  ap_status :: string
  ap_donation_type :: "string option"
  ap_hospital_contact :: "string option"
  ap_notes :: "string option"

text \<open>
  A notification as NotificationSystem.tsx holds it (its \<open>Notification\<close> interface), and a
  row of \<open>notifications\<close>: the same fields and the columns the inserts and the queries
  name (\<open>data\<close> holds a request id and a donor id).
\<close>

record notification =
  nt_id :: string
  nt_title :: string
  nt_message :: string
  nt_type :: string
  nt_is_read :: bool
  nt_created_at :: timestamp

record notification_row = notification +
  nt_user_id :: string
  nt_user_type :: "string option"
  nt_data :: "(string \<times> string) option"

text \<open>A row of \<open>profiles\<close>: the columns \<open>fetchDonors\<close> selects.\<close>

record profile =
  pf_id :: string
  pf_first_name :: string
  pf_last_name :: string
  pf_blood_type :: string
  pf_is_available :: bool
  pf_last_donation_date :: string
  pf_phone :: string
  pf_address :: string

record store =
  requests :: "request list"
  appointments :: "appointment list"
  notifications :: "notification_row list"
  profiles :: "profile list"

text \<open>\<open>.update(values).eq('id', i)\<close>: every row whose key is \<open>i\<close> is rewritten.\<close>

definition update_where :: "('r \<Rightarrow> string) \<Rightarrow> string \<Rightarrow> ('r \<Rightarrow> 'r) \<Rightarrow> 'r list \<Rightarrow> 'r list" where
  "update_where key i f rows = map (\<lambda>r. if key r = i then f r else r) rows"

text \<open>A remote call whose errors the caller only logs: it changes the store when it is done.\<close>

definition attempt :: "reply \<Rightarrow> (store \<Rightarrow> store) \<Rightarrow> store \<Rightarrow> store" where
  "attempt r f st = (if r = Done then f st else st)"

subsection \<open>A donor's card of a request (components/DonorRequestCard.tsx)\<close>

text \<open>
  \<open>JSON.parse(sessionStorage.getItem('donor') || '{}')\<close>: the item does not parse (the
  call throws), or it parses to an object with or without an \<open>id\<close>.
\<close>

datatype session = Unparsable | Parsed "string option"

text \<open>
  What \<open>handleAccept\<close> reads besides the card's request and the store: the session, the
  clock when the update is built and when the appointment is built, the reply of each of
  its three remote calls, and the rows the database fills in for the columns an insert
  leaves out.
\<close>

record accept_env =
  ae_session :: session
  ae_update_clock :: timestamp
  ae_update_reply :: reply
  ae_insert_clock :: timestamp
  ae_appointment_reply :: reply
  ae_blank_appointment :: appointment
  ae_notification_reply :: reply
  ae_blank_notification :: notification_row

definition unexpected_error :: toast where
  "unexpected_error = Toast ''Error'' ''An unexpected error occurred.'' Destructive"

definition authentication_error :: toast where
  "authentication_error = Toast ''Authentication Error'' ''Please log in again.'' Destructive"

definition request_accepted :: toast where
  "request_accepted = Toast ''Request Accepted''
     ''You have accepted this request. The hospital will contact you to schedule the donation.''
     Default"

definition request_ignored :: toast where
  "request_ignored = Toast ''Request Ignored'' ''This request has been marked as ignored.'' Default"

text \<open>The values of the update of \<open>handleAccept\<close>.\<close>

definition accepted_by :: "string \<Rightarrow> timestamp \<Rightarrow> request \<Rightarrow> request" where
  "accepted_by donor now r =
     r\<lparr>rq_donor_id := Some donor, rq_status := ''accepted'', rq_updated_at := Some now\<rparr>"

text \<open>The row of the insert into \<open>appointments\<close> of \<open>handleAccept\<close>.\<close>

definition accept_appointment :: "appointment \<Rightarrow> request \<Rightarrow> string \<Rightarrow> timestamp \<Rightarrow> appointment" where
  "accept_appointment blank request donor now =
     blank\<lparr>ap_request_id := Some (rq_id request),
           ap_hospital_id := rq_hospital_id request,
           ap_donor_id := donor,
           ap_appointment_date := now + 24 * 60 * 60 * 1000,
           ap_appointment_time := Some ''10:00 AM'',
           ap_status := ''scheduled''\<rparr>"

text \<open>The row of the insert into \<open>notifications\<close> of \<open>handleAccept\<close>.\<close>

definition accept_notification :: "notification_row \<Rightarrow> request \<Rightarrow> string \<Rightarrow> notification_row" where
  "accept_notification blank request donor =
     blank\<lparr>nt_user_id := rq_hospital_id request,
           nt_user_type := Some ''hospital'',
           nt_title := ''Request Accepted'',
           nt_message := ''Your '' @ rq_type request @ '' request for '' @ rq_blood_group request
                          @ '' has been accepted by a donor.'',
           nt_type := ''request'',
           nt_data := Some (rq_id request, donor)\<rparr>"

text \<open>
  \<open>handleAccept\<close> returns the store, the toast it shows and whether it called
  \<open>onRequestUpdate\<close>.
\<close>

definition handleAccept :: "accept_env \<Rightarrow> request \<Rightarrow> store \<Rightarrow> store \<times> toast option \<times> bool" where
  "handleAccept env request st =
    (case ae_session env of
       Unparsable \<Rightarrow> (st, Some unexpected_error, False)
     | Parsed None \<Rightarrow> (st, Some authentication_error, False)
     | Parsed (Some donor) \<Rightarrow>
         if donor = [] then (st, Some authentication_error, False)
         else
           (case ae_update_reply env of
              Raised \<Rightarrow> (st, Some unexpected_error, False)
            | Refused msg \<Rightarrow> (st, Some (Toast ''Accept Failed'' msg Destructive), False)
            | Done \<Rightarrow>
                let st1 = st\<lparr>requests :=
                            update_where rq_id (rq_id request)
                              (accepted_by donor (ae_update_clock env)) (requests st)\<rparr>
                in if ae_appointment_reply env = Raised then (st1, Some unexpected_error, False)
                   else
                     let st2 = attempt (ae_appointment_reply env)
                                 (\<lambda>s. s\<lparr>appointments := appointments s @
                                    [accept_appointment (ae_blank_appointment env) request donor
                                       (ae_insert_clock env)]\<rparr>) st1
                     in if ae_notification_reply env = Raised
                        then (st2, Some unexpected_error, False)
                        else
                          (attempt (ae_notification_reply env)
                             (\<lambda>s. s\<lparr>notifications := notifications s @
                                [accept_notification (ae_blank_notification env) request donor]\<rparr>)
                             st2,
                           Some request_accepted, True)))"

text \<open>
  What \<open>handleIgnore\<close> reads: the session, the clock and the reply of its update.
\<close>

record ignore_env =
  ie_session :: session
  ie_update_clock :: timestamp
  ie_update_reply :: reply

text \<open>The values of the update of \<open>handleIgnore\<close>.\<close>

definition ignored_by :: "string \<Rightarrow> timestamp \<Rightarrow> request \<Rightarrow> request" where
  "ignored_by donor now r =
     r\<lparr>rq_donor_id := Some donor, rq_status := ''ignored'', rq_updated_at := Some now\<rparr>"

definition handleIgnore :: "ignore_env \<Rightarrow> request \<Rightarrow> store \<Rightarrow> store \<times> toast option \<times> bool" where
  "handleIgnore env request st =
    (case ie_session env of
       Unparsable \<Rightarrow> (st, Some unexpected_error, False)
     | Parsed None \<Rightarrow> (st, Some authentication_error, False)
     | Parsed (Some donor) \<Rightarrow>
         if donor = [] then (st, Some authentication_error, False)
         else
           (case ie_update_reply env of
              Raised \<Rightarrow> (st, Some unexpected_error, False)
            | Refused msg \<Rightarrow> (st, Some (Toast ''Ignore Failed'' msg Destructive), False)
            | Done \<Rightarrow>
                (st\<lparr>requests :=
                     update_where rq_id (rq_id request)
                       (ignored_by donor (ie_update_clock env)) (requests st)\<rparr>,
                 Some request_ignored, True)))"

text \<open>The card offers its Accept and Ignore buttons only while it shows the request as pending.\<close>

definition card_offers_buttons :: "request \<Rightarrow> bool" where
  "card_offers_buttons request = (rq_status request = ''pending'')"

subsection \<open>The hospital's list of donors (components/hospital/DonorProfiles.tsx)\<close>

text \<open>
  A donor as the list holds it: the selected columns of the profile, and the fields
  \<open>fetchDonors\<close> adds.
\<close>

record donor_view = profile +
  dv_health_condition :: string
  dv_recent_donations :: "(string \<times> string) list"
  dv_location :: string

text \<open>
  \<open>handleIgnoreDonor\<close> works on the store and on the component's list of donors; an
  \<open>error\<close> of the update is thrown and caught like a rejected promise.
\<close>

definition handleIgnoreDonor ::
  "reply \<Rightarrow> string \<Rightarrow> store \<times> donor_view list \<Rightarrow> (store \<times> donor_view list) \<times> toast" where
  "handleIgnoreDonor r donorId s =
    (case s of (st, donors) \<Rightarrow>
       if r = Done then
         ((st\<lparr>profiles :=
                update_where pf_id donorId (\<lambda>p. p\<lparr>pf_is_available := False\<rparr>) (profiles st)\<rparr>,
           filter (\<lambda>donor. pf_id donor \<noteq> donorId) donors),
          Toast ''Donor Ignored'' ''Donor has been removed from the available list.'' Default)
       else ((st, donors),
             Toast ''Error'' ''Failed to ignore donor. Please try again.'' Destructive))"

subsection \<open>The hospital's list of requests (components/hospital/RequestsList.tsx)\<close>

text \<open>The statuses \<open>updateRequestStatus\<close> takes, and the strings they are.\<close>

datatype new_status = Accepted | Ignored | Scheduled

fun status_name :: "new_status \<Rightarrow> string" where
  "status_name Accepted = ''Accepted''"
| "status_name Ignored = ''Ignored''"
| "status_name Scheduled = ''Scheduled''"

text \<open>
  \<open>updateRequestStatus\<close> works on the store and on the component's list of the rows it
  fetched; an \<open>error\<close> of the update is thrown and caught like a rejected promise. It
  returns the toast and whether it called \<open>onRequestUpdate\<close>.
\<close>

definition updateRequestStatus ::
  "reply \<Rightarrow> string \<Rightarrow> new_status \<Rightarrow> store \<times> request list \<Rightarrow> (store \<times> request list) \<times> toast \<times> bool" where
  "updateRequestStatus r requestId status s =
    (case s of (st, listed) \<Rightarrow>
       if r = Done then
         ((st\<lparr>requests :=
                update_where rq_id requestId (\<lambda>q. q\<lparr>rq_status := status_name status\<rparr>) (requests st)\<rparr>,
           map (\<lambda>request. if rq_id request = requestId
                           then request\<lparr>rq_status := status_name status\<rparr> else request) listed),
          Toast ''Status Updated'' (''Request status updated to '' @ status_name status) Default,
          True)
       else ((st, listed),
             Toast ''Update Failed'' ''Failed to update request status. Please try again.'' Destructive,
             False))"

text \<open>The list offers Accept and Ignore only on a row it shows as Pending.\<close>

definition list_offers :: "request \<Rightarrow> new_status list" where
  "list_offers request = (if rq_status request = ''Pending'' then [Accepted, Ignored] else [])"

text \<open>
  The edges of the request state machine, as the specification lists them (not taken from
  the source): what a status change is compared with.
\<close>

definition spec_edge :: "string \<Rightarrow> string \<Rightarrow> bool" where
  "spec_edge a b \<longleftrightarrow>
     (a, b) \<in> set [(''Pending'', ''Accepted''), (''Pending'', ''Ignored''),
                   (''Accepted'', ''Scheduled''), (''Accepted'', ''Cancelled''),
                   (''Scheduled'', ''Completed''), (''Scheduled'', ''Cancelled'')]"

subsection \<open>Scheduling an appointment (components/hospital/AppointmentForm.tsx)\<close>

record form_donor =
  fd_id :: string
  fd_first_name :: string
  fd_last_name :: string
  fd_blood_type :: string
  fd_phone :: string
  fd_location :: string

record AppointmentData =
  date :: string
  time :: string
  hospitalContact :: string
  notes_field :: string
  donationType :: string

text \<open>
  What \<open>handleSubmit\<close> reads besides the form, the donor, the request id and the store:
  the id of the signed-in user if there is one, the runtime's \<open>new Date(s)\<close> (no instant
  for an invalid date) and \<open>toLocaleDateString\<close>, the reply of each remote call and the
  rows the database fills in. It does not read the clock.
\<close>

record submit_env =
  se_user :: "string option"
  se_parse :: "string \<Rightarrow> timestamp option"
  se_formatDate :: "string \<Rightarrow> string"
  se_appointment_reply :: reply
  se_blank_appointment :: appointment
  se_request_reply :: reply
  se_notification_reply :: reply
  se_blank_notification :: notification_row

definition authentication_required :: toast where
  "authentication_required =
     Toast ''Authentication Required'' ''Please log in to schedule an appointment.'' Destructive"

definition missing_information :: toast where
  "missing_information =
     Toast ''Missing Information'' ''Please fill in all required fields.'' Destructive"

definition scheduling_failed :: toast where
  "scheduling_failed =
     Toast ''Scheduling Failed'' ''Failed to schedule appointment. Please try again.'' Destructive"

definition appointment_scheduled :: "submit_env \<Rightarrow> form_donor \<Rightarrow> AppointmentData \<Rightarrow> toast" where
  "appointment_scheduled env donor formData =
     Toast ''Appointment Scheduled''
       (''Appointment scheduled with '' @ fd_first_name donor @ '' '' @ fd_last_name donor
        @ '' for '' @ se_formatDate env (date formData) @ '' at '' @ time formData)
       Default"

text \<open>\<open>requestId || null\<close>, and the test \<open>if (requestId)\<close>: an empty id counts as none.\<close>

definition given_request :: "string option \<Rightarrow> string option" where
  "given_request requestId =
     (case requestId of None \<Rightarrow> None | Some i \<Rightarrow> if i = [] then None else Some i)"

text \<open>The row of the insert into \<open>appointments\<close> of \<open>handleSubmit\<close>.\<close>

definition form_appointment ::
  "appointment \<Rightarrow> form_donor \<Rightarrow> string \<Rightarrow> string option \<Rightarrow> AppointmentData \<Rightarrow> timestamp \<Rightarrow> appointment" where
  "form_appointment blank donor user requestId formData instant =
     blank\<lparr>ap_donor_id := fd_id donor,
           ap_hospital_id := user,
           ap_request_id := given_request requestId,
           ap_donation_type := Some (donationType formData),
           ap_status := ''pending'',
           ap_appointment_date := instant,
           ap_hospital_contact := Some (hospitalContact formData),
           ap_notes := Some (notes_field formData)\<rparr>"

text \<open>
  \<open>sendNotificationToDonor\<close>: an insert whose \<open>error\<close> and whose exception are only
  logged.
\<close>

definition form_notification :: "submit_env \<Rightarrow> form_donor \<Rightarrow> AppointmentData \<Rightarrow> notification_row" where
  "form_notification env donor formData =
     (se_blank_notification env)\<lparr>nt_user_id := fd_id donor,
        nt_title := ''Appointment Confirmation'',
        nt_message := ''Your donation appointment has been scheduled for ''
                       @ se_formatDate env (date formData) @ '' at '' @ time formData
                       @ ''. Hospital Contact: '' @ hospitalContact formData,
        nt_type := ''appointment_confirmation'',
        nt_is_read := False\<rparr>"

definition sendNotificationToDonor :: "submit_env \<Rightarrow> form_donor \<Rightarrow> AppointmentData \<Rightarrow> store \<Rightarrow> store" where
  "sendNotificationToDonor env donor formData st =
     attempt (se_notification_reply env)
       (\<lambda>s. s\<lparr>notifications := notifications s @ [form_notification env donor formData]\<rparr>) st"

text \<open>
  \<open>handleSubmit\<close> returns the store, the toast it shows and whether it called
  \<open>onAppointmentScheduled\<close>. An invalid date makes \<open>toISOString()\<close> throw while the row is
  built, before any remote call; an \<open>error\<close> of the insert or of the update is thrown;
  all of them end in the same \<open>catch\<close>.
\<close>

definition handleSubmit ::
  "submit_env \<Rightarrow> form_donor \<Rightarrow> string option \<Rightarrow> AppointmentData \<Rightarrow> store \<Rightarrow> store \<times> toast option \<times> bool" where
  "handleSubmit env donor requestId formData st =
    (case se_user env of
       None \<Rightarrow> (st, Some authentication_required, False)
     | Some user \<Rightarrow>
         if user = [] then (st, Some authentication_required, False)
         else if date formData = [] \<or> time formData = [] \<or> hospitalContact formData = []
         then (st, Some missing_information, False)
         else
           (case se_parse env (date formData @ ''T'' @ time formData) of
              None \<Rightarrow> (st, Some scheduling_failed, False)
            | Some instant \<Rightarrow>
                if se_appointment_reply env \<noteq> Done then (st, Some scheduling_failed, False)
                else
                  let st1 = st\<lparr>appointments := appointments st @
                              [form_appointment (se_blank_appointment env) donor user requestId
                                 formData instant]\<rparr>
                  in (case given_request requestId of
                        None \<Rightarrow>
                          (sendNotificationToDonor env donor formData st1,
                           Some (appointment_scheduled env donor formData), True)
                      | Some i \<Rightarrow>
                          if se_request_reply env \<noteq> Done then (st1, Some scheduling_failed, False)
                          else
                            (sendNotificationToDonor env donor formData
                               (st1\<lparr>requests :=
                                     update_where rq_id i (\<lambda>q. q\<lparr>rq_status := ''Scheduled''\<rparr>)
                                       (requests st1)\<rparr>),
                             Some (appointment_scheduled env donor formData), True))))"

text \<open>
  The bounds the form gives its date input. \<open>getMinDate\<close> and \<open>getMaxDate\<close> read the
  clock and use the runtime's calendar: \<open>toISOString().split('T')[0]\<close> and
  \<open>setDate(getDate() + n)\<close>. The third function of the calendar is the day (counted
  from the epoch) that a date string denotes, as the date input reads its value and its
  bounds; a string that is not a date denotes none.
\<close>

record calendar =
  cal_iso_date :: "timestamp \<Rightarrow> string"
  cal_add_days :: "timestamp \<Rightarrow> int \<Rightarrow> timestamp"
  cal_day_of :: "string \<Rightarrow> int option"

definition getMinDate :: "calendar \<Rightarrow> timestamp \<Rightarrow> string" where
  "getMinDate cal now = cal_iso_date cal now"

definition getMaxDate :: "calendar \<Rightarrow> timestamp \<Rightarrow> string" where
  "getMaxDate cal now = cal_iso_date cal (cal_add_days cal now 30)"

text \<open>
  The form (AppointmentForm.tsx, lines 192 to 303) is a \<open>form\<close> element with
  \<open>onSubmit={handleSubmit}\<close> and a submit button. Its date input is \<open>required\<close> and
  carries \<open>min={getMinDate()}\<close> and \<open>max={getMaxDate()}\<close>, computed when the form is
  rendered; its time input and its hospital-contact input are \<open>required\<close>. A click on the
  button makes the browser check these constraints: a required value must not be empty,
  and a value that denotes a day must not lie before the day of \<open>min\<close> or after the day
  of \<open>max\<close>, where these denote days.
\<close>

definition not_before :: "calendar \<Rightarrow> string \<Rightarrow> string \<Rightarrow> bool" where
  "not_before cal bound v =
     (case cal_day_of cal v of
        None \<Rightarrow> True
      | Some d \<Rightarrow> (case cal_day_of cal bound of None \<Rightarrow> True | Some m \<Rightarrow> m \<le> d))"

definition not_after :: "calendar \<Rightarrow> string \<Rightarrow> string \<Rightarrow> bool" where
  "not_after cal bound v =
     (case cal_day_of cal v of
        None \<Rightarrow> True
      | Some d \<Rightarrow> (case cal_day_of cal bound of None \<Rightarrow> True | Some m \<Rightarrow> d \<le> m))"

definition form_valid :: "calendar \<Rightarrow> timestamp \<Rightarrow> AppointmentData \<Rightarrow> bool" where
  "form_valid cal rendered formData \<longleftrightarrow>
     date formData \<noteq> [] \<and>
     not_before cal (getMinDate cal rendered) (date formData) \<and>
     not_after cal (getMaxDate cal rendered) (date formData) \<and>
     time formData \<noteq> [] \<and>
     hospitalContact formData \<noteq> []"

text \<open>
  A click on the submit button of the form rendered at a given instant. When a
  constraint fails the browser reports the field and fires no submit event: the handler
  does not run, and nothing is shown, stored or called. Otherwise \<open>handleSubmit\<close> runs.
\<close>

datatype validity = Invalid | Valid

definition submitForm ::
  "calendar \<Rightarrow> timestamp \<Rightarrow> submit_env \<Rightarrow> form_donor \<Rightarrow> string option \<Rightarrow> AppointmentData \<Rightarrow> store
     \<Rightarrow> validity \<times> store \<times> toast option \<times> bool" where
  "submitForm cal rendered env donor requestId formData st =
     (if form_valid cal rendered formData
      then (Valid, handleSubmit env donor requestId formData st)
      else (Invalid, st, None, False))"

text \<open>
  The request id the form is given. DonorProfiles passes its \<open>selectedRequestId\<close> on,
  which is the state of that name of HospitalDashboard.tsx (line 31): it starts undefined
  and its setter is never called.
\<close>

definition selectedRequestId :: "string option" where
  "selectedRequestId = None"

subsection \<open>The notification bell (components/hospital/NotificationSystem.tsx)\<close>

text \<open>
  \<open>.order('created_at', { ascending: false })\<close>: the rows by descending key. The order
  among rows with equal keys is the database's; here it is the order of the table.
\<close>

definition order_desc :: "('r \<Rightarrow> int) \<Rightarrow> 'r list \<Rightarrow> 'r list" where
  "order_desc key rows = sort_key (\<lambda>r. - key r) rows"

text \<open>The query of \<open>fetchNotifications\<close>: the rows of one user, newest first.\<close>

definition select_notifications :: "string \<Rightarrow> store \<Rightarrow> notification_row list" where
  "select_notifications userId st =
     order_desc nt_created_at (filter (\<lambda>n. nt_user_id n = userId) (notifications st))"

text \<open>\<open>getMockNotifications\<close> reads the clock once for each of its three notifications.\<close>

definition getMockNotifications :: "timestamp \<times> timestamp \<times> timestamp \<Rightarrow> notification list" where
  "getMockNotifications clock =
    (case clock of (t1, t2, t3) \<Rightarrow>
      [\<lparr>nt_id = ''1'', nt_title = ''Appointment Confirmation'',
        nt_message = ''Your donation appointment has been scheduled for December 25, 2024 at 2:00 PM. Hospital Contact: +1-555-0123'',
        nt_type = ''appointment_confirmation'', nt_is_read = False, nt_created_at = t1\<rparr>,
       \<lparr>nt_id = ''2'', nt_title = ''Appointment Reminder'',
        nt_message = ''Reminder: You have a blood donation appointment tomorrow at 10:00 AM. Please arrive 15 minutes early.'',
        nt_type = ''appointment_reminder'', nt_is_read = True, nt_created_at = t2 - 86400000\<rparr>,
       \<lparr>nt_id = ''3'', nt_title = ''Request Update'',
        nt_message = ''Your blood donation request has been accepted by City General Hospital.'',
        nt_type = ''request_update'', nt_is_read = False, nt_created_at = t3 - 172800000\<rparr>])"

text \<open>
  The component's state next to the store is its list of notifications.
  \<open>fetchNotifications\<close> replaces the list by the rows of the query, or by the mock
  notifications when the query returns an \<open>error\<close> or throws.
\<close>

definition fetchNotifications ::
  "reply \<Rightarrow> string \<Rightarrow> timestamp \<times> timestamp \<times> timestamp \<Rightarrow> store \<times> notification list
     \<Rightarrow> store \<times> notification list" where
  "fetchNotifications r userId clock s =
    (case s of (st, listed) \<Rightarrow>
       if r = Done then (st, map notification.truncate (select_notifications userId st))
       else (st, getMockNotifications clock))"

definition marked_as_read :: toast where
  "marked_as_read =
     Toast ''Notification Marked as Read'' ''Notification has been marked as read.'' Default"

text \<open>
  \<open>markAsRead\<close>: an \<open>error\<close> of the update is only logged and the list is updated all
  the same; when the call throws, nothing else happens.
\<close>

definition markAsRead ::
  "reply \<Rightarrow> string \<Rightarrow> store \<times> notification list \<Rightarrow> (store \<times> notification list) \<times> toast option" where
  "markAsRead r notificationId s =
    (case s of (st, listed) \<Rightarrow>
       if r = Raised then ((st, listed), None)
       else
         ((attempt r
             (\<lambda>s. s\<lparr>notifications :=
                     update_where nt_id notificationId (\<lambda>n. n\<lparr>nt_is_read := True\<rparr>)
                       (notifications s)\<rparr>) st,
           map (\<lambda>notification. if nt_id notification = notificationId
                                then notification\<lparr>nt_is_read := True\<rparr> else notification) listed),
          Some marked_as_read))"

subsection \<open>The blood inventory (pages/hospital/HospitalDashboard.tsx)\<close>

text \<open>Unit counts are JavaScript numbers that hold integers; they are modelled as integers.\<close>

record BloodType =
  bt_type :: string
  bt_units :: int

record dashboard =
  bloodInventory :: "BloodType list"
  editingType :: "string option"
  tempValue :: int

text \<open>The decimal digits of a natural number and of an integer, as a template literal prints them.\<close>

function show_nat :: "nat \<Rightarrow> string" where
  "show_nat n =
     (if n < 10 then [''0123456789'' ! n]
      else show_nat (n div 10) @ [''0123456789'' ! (n mod 10)])"
  by pat_completeness auto
termination
  by (relation "measure id") auto

declare show_nat.simps [simp del]

definition show_int :: "int \<Rightarrow> string" where
  "show_int i = (if i < 0 then CHR ''-'' # show_nat (nat (- i)) else show_nat (nat i))"

text \<open>
  \<open>parseInt\<close> on the value of a number input, which is empty or a decimal number: leading
  white space, a sign, then the longest run of digits; no number when there is no digit.
\<close>

definition is_space :: "char \<Rightarrow> bool" where
  "is_space c \<longleftrightarrow> c \<in> set [CHR '' '', CHR 0x09, CHR 0x0A, CHR 0x0B, CHR 0x0C, CHR 0x0D]"

definition is_digit :: "char \<Rightarrow> bool" where
  "is_digit c \<longleftrightarrow> c \<in> set ''0123456789''"

definition digit_value :: "char \<Rightarrow> nat" where
  "digit_value c = of_char c - 48"

definition digits_value :: "string \<Rightarrow> nat" where
  "digits_value ds = foldl (\<lambda>a c. 10 * a + digit_value c) 0 ds"

definition parseInt :: "string \<Rightarrow> int option" where
  "parseInt s =
    (let t = dropWhile is_space s;
         negative = (t \<noteq> [] \<and> hd t = CHR ''-'');
         u = (if t \<noteq> [] \<and> (hd t = CHR ''-'' \<or> hd t = CHR ''+'') then tl t else t);
         ds = takeWhile is_digit u
     in if ds = [] then None
        else Some (if negative then - int (digits_value ds) else int (digits_value ds)))"

definition handleEditStart :: "string \<Rightarrow> int \<Rightarrow> dashboard \<Rightarrow> dashboard" where
  "handleEditStart type currentUnits d = d\<lparr>editingType := Some type, tempValue := currentUnits\<rparr>"

text \<open>The \<open>onChange\<close> of the edit field: \<open>setTempValue(parseInt(e.target.value) || 0)\<close>.\<close>

definition changeTempValue :: "string \<Rightarrow> dashboard \<Rightarrow> dashboard" where
  "changeTempValue v d =
     d\<lparr>tempValue := (case parseInt v of None \<Rightarrow> 0 | Some n \<Rightarrow> if n = 0 then 0 else n)\<rparr>"

definition handleEditSave :: "string \<Rightarrow> dashboard \<Rightarrow> dashboard \<times> toast" where
  "handleEditSave type d =
     (d\<lparr>bloodInventory :=
          map (\<lambda>blood. if bt_type blood = type then blood\<lparr>bt_units := tempValue d\<rparr> else blood)
            (bloodInventory d),
        editingType := None\<rparr>,
      Toast ''Blood Inventory Updated''
        (type @ '' blood units updated to '' @ show_int (tempValue d)) Default)"

definition handleEditCancel :: "dashboard \<Rightarrow> dashboard" where
  "handleEditCancel d = d\<lparr>editingType := None, tempValue := 0\<rparr>"

definition handleQuickUpdate :: "string \<Rightarrow> int \<Rightarrow> dashboard \<Rightarrow> dashboard \<times> toast" where
  "handleQuickUpdate type change d =
     (d\<lparr>bloodInventory :=
          map (\<lambda>blood. if bt_type blood = type
                        then blood\<lparr>bt_units := max 0 (bt_units blood + change)\<rparr> else blood)
            (bloodInventory d)\<rparr>,
      Toast ''Quick Update''
        (type @ '' blood units '' @ (if change > 0 then ''increased'' else ''decreased'')
         @ '' by '' @ show_int (abs change)) Default)"

text \<open>The buttons of a blood type: minus is a quick update by -1, plus by 1.\<close>

datatype quick = Minus | Plus

fun quick_change :: "quick \<Rightarrow> int" where
  "quick_change Minus = - 1"
| "quick_change Plus = 1"

text \<open>A sequence of clicks on the quick-update buttons, each on one blood type.\<close>

fun quick_updates :: "(string \<times> quick) list \<Rightarrow> dashboard \<Rightarrow> dashboard" where
  "quick_updates [] d = d"
| "quick_updates ((type, q) # clicks) d =
     quick_updates clicks (fst (handleQuickUpdate type (quick_change q) d))"

text \<open>Every counter of the inventory is at least 0.\<close>

definition nonneg :: "dashboard \<Rightarrow> bool" where
  "nonneg d \<longleftrightarrow> list_all (\<lambda>b. 0 \<le> bt_units b) (bloodInventory d)"

subsection \<open>Sample data\<close>

text \<open>The request of the scenario: pending, group B+, two units.\<close>

definition sample_request :: request where
  "sample_request =
    \<lparr>rq_id = ''r1'', rq_request_id = ''REQ-1'', rq_hospital_id = ''h1'', rq_type = ''blood'',
     rq_blood_group = ''B+'', rq_units = 2, rq_urgency = ''High'', rq_patient_name = ''P'',
     rq_patient_age = None, rq_patient_gender = None, rq_medical_condition = None,
     rq_location = ''Ward 3'', rq_notes = None, rq_status = ''pending'', rq_created_at = 0,
     rq_donor_id = None, rq_updated_at = None\<rparr>"

definition sample_store :: store where
  "sample_store = \<lparr>requests = [sample_request], appointments = [], notifications = [], profiles = []\<rparr>"

definition sample_blank_appointment :: appointment where
  "sample_blank_appointment =
    \<lparr>ap_id = ''a1'', ap_request_id = None, ap_hospital_id = [], ap_donor_id = [],
     ap_appointment_date = 0, ap_appointment_time = None, ap_status = [],
     ap_donation_type = None, ap_hospital_contact = None, ap_notes = None\<rparr>"

definition sample_blank_notification :: notification_row where
  "sample_blank_notification =
    \<lparr>nt_id = ''n1'', nt_title = [], nt_message = [], nt_type = [], nt_is_read = False,
     nt_created_at = 0, nt_user_id = [], nt_user_type = None, nt_data = None\<rparr>"

text \<open>A donor with a session, a clock and a store that answers every call.\<close>

definition sample_accept_env :: "string \<Rightarrow> timestamp \<Rightarrow> reply \<Rightarrow> accept_env" where
  "sample_accept_env donor now appointment_reply =
    \<lparr>ae_session = Parsed (Some donor), ae_update_clock = now, ae_update_reply = Done,
     ae_insert_clock = now + 120, ae_appointment_reply = appointment_reply,
     ae_blank_appointment = sample_blank_appointment,
     ae_notification_reply = Done, ae_blank_notification = sample_blank_notification\<rparr>"

definition sample_ignore_env :: "string \<Rightarrow> timestamp \<Rightarrow> ignore_env" where
  "sample_ignore_env donor now =
    \<lparr>ie_session = Parsed (Some donor), ie_update_clock = now, ie_update_reply = Done\<rparr>"

text \<open>The store after donor d1 has accepted the sample request at instant 1000.\<close>

definition accepted_store :: store where
  "accepted_store = fst (handleAccept (sample_accept_env ''d1'' 1000 Done) sample_request sample_store)"

text \<open>The sample request as the only row, with a given status.\<close>

definition store_with_status :: "string \<Rightarrow> store" where
  "store_with_status status = sample_store\<lparr>requests := [sample_request\<lparr>rq_status := status\<rparr>]\<rparr>"

definition sample_form_donor :: form_donor where
  "sample_form_donor =
    \<lparr>fd_id = ''d1'', fd_first_name = ''Krishna'', fd_last_name = ''K'', fd_blood_type = ''B+'',
     fd_phone = ''+91-90000-0001'', fd_location = ''Downtown Medical District''\<rparr>"

text \<open>A form filled in for 10 February 1970, ten o'clock.\<close>

definition sample_form :: AppointmentData where
  "sample_form =
    \<lparr>date = ''1970-02-10'', time = ''10:00'', hospitalContact = ''+1-555-0123'',
     notes_field = [], donationType = ''blood''\<rparr>"

text \<open>
  The runtime's date functions at the strings and instants the examples use, in a UTC
  zone: 10 February 1970 is day 40 after 1 January 1970, 31 January is day 30, and
  31 December 1969 is the day before.
\<close>

definition sample_parse :: "string \<Rightarrow> timestamp option" where
  "sample_parse s = (if s = ''1970-02-10T10:00'' then Some (40 * 86400000 + 10 * 3600000) else None)"

definition sample_formatDate :: "string \<Rightarrow> string" where
  "sample_formatDate s = (if s = ''1970-02-10'' then ''February 10, 1970'' else ''Invalid Date'')"


text \<open>A signed-in hospital h1 and a store that answers every call.\<close>

definition sample_submit_env :: submit_env where
  "sample_submit_env =
    \<lparr>se_user = Some ''h1'', se_parse = sample_parse, se_formatDate = sample_formatDate,
     se_appointment_reply = Done,
     se_blank_appointment = sample_blank_appointment\<lparr>ap_id := ''a2''\<rparr>,
     se_request_reply = Done, se_notification_reply = Done,
     se_blank_notification = sample_blank_notification\<lparr>nt_id := ''n2''\<rparr>\<rparr>"

text \<open>An inventory of two blood types; O- is out of stock.\<close>

definition sample_dashboard :: dashboard where
  "sample_dashboard =
    \<lparr>bloodInventory = [\<lparr>bt_type = ''A+'', bt_units = 5\<rparr>, \<lparr>bt_type = ''O-'', bt_units = 0\<rparr>],
     editingType = None, tempValue = 0\<rparr>"

text \<open>
  Three notifications of two users: n1 and n3 are for d1, and n3 is the newer one.
\<close>

definition sample_notifications :: "notification_row list" where
  "sample_notifications =
    [sample_blank_notification\<lparr>nt_id := ''n1'', nt_user_id := ''d1'', nt_created_at := 100\<rparr>,
     sample_blank_notification\<lparr>nt_id := ''n2'', nt_user_id := ''d2'', nt_created_at := 200\<rparr>,
     sample_blank_notification\<lparr>nt_id := ''n3'', nt_user_id := ''d1'', nt_created_at := 300\<rparr>]"

definition sample_bell :: "store \<times> notification list" where
  "sample_bell =
     fetchNotifications Done ''d1'' (0, 0, 0)
       (sample_store\<lparr>notifications := sample_notifications\<rparr>, [])"

section \<open>Theorems\<close>

subsection \<open>Compatibility\<close>

lemma blood_groups_eq:
  "blood_groups = [''O-'', ''O+'', ''A-'', ''A+'', ''B-'', ''B+'', ''AB-'', ''AB+'']"
  by (simp add: blood_groups_def compat_def)

lemma compatible_AB_pos:
  "d \<in> set blood_groups \<Longrightarrow> compatible d ''AB+'' = Inr True"
  unfolding blood_groups_eq by (auto simp: compatible_def compat_def)

lemma compatible_O_neg:
  "compatible d ''O-'' = Inr True \<longleftrightarrow> d = ''O-''"
  by (simp add: compatible_def compat_def object_prototype_keys_def)

text \<open>
  C4. The compatibility filter accepts, for a patient of group AB+, a donor of each of
  the eight groups, and for a patient of group O-, a donor if and only if the donor's
  group is O-.
\<close>

theorem C4_compatible_universal:
  "(\<forall>d \<in> set blood_groups. compatible d ''AB+'' = Inr True) \<and>
   length blood_groups = 8 \<and> distinct blood_groups \<and>
   (\<forall>d. compatible d ''O-'' = Inr True \<longleftrightarrow> d = ''O-'')"
proof -
  have "length blood_groups = 8 \<and> distinct blood_groups"
    by (simp add: blood_groups_eq)
  then show ?thesis
    using compatible_AB_pos compatible_O_neg by blast
qed

theorem C4_compatible_universal_witness:
  "''B-'' \<in> set blood_groups \<and> compatible ''B-'' ''AB+'' = Inr True \<and>
   compatible ''O-'' ''O-'' = Inr True \<and> compatible ''O+'' ''O-'' \<noteq> Inr True"
proof -
  have m: "''B-'' \<in> set blood_groups" by (simp add: blood_groups_eq)
  have "compatible ''O+'' ''O-'' \<noteq> Inr True"
    using C4_compatible_universal by (simp add: compatible_def compat_def)
  then show ?thesis using m C4_compatible_universal by blast
qed

subsection \<open>Accepting and ignoring a request\<close>

lemma handleAccept_requests:
  assumes "ae_session env = Parsed (Some donor)" "donor \<noteq> []" "ae_update_reply env = Done"
  shows "requests (fst (handleAccept env request st)) =
         update_where rq_id (rq_id request) (accepted_by donor (ae_update_clock env)) (requests st)"
  using assms by (simp add: handleAccept_def attempt_def Let_def)

lemma handleAccept_appointments:
  assumes "ae_session env = Parsed (Some donor)" "donor \<noteq> []" "ae_update_reply env = Done"
  shows "appointments (fst (handleAccept env request st)) =
         (if ae_appointment_reply env = Done
          then appointments st @
               [accept_appointment (ae_blank_appointment env) request donor (ae_insert_clock env)]
          else appointments st)"
  using assms by (simp add: handleAccept_def attempt_def Let_def)

lemma handleAccept_toast:
  assumes "ae_session env = Parsed (Some donor)" "donor \<noteq> []" "ae_update_reply env = Done"
    "ae_appointment_reply env \<noteq> Raised" "ae_notification_reply env \<noteq> Raised"
  shows "snd (handleAccept env request st) = (Some request_accepted, True)"
  using assms by (simp add: handleAccept_def attempt_def Let_def)

lemma handleAccept_unchanged:
  assumes "ae_update_reply env \<noteq> Done"
  shows "fst (handleAccept env request st) = st"
  using assms by (simp add: handleAccept_def split: session.splits option.splits reply.splits)

lemma accepted_store_eq:
  "accepted_store =
    \<lparr>requests = [accepted_by ''d1'' 1000 sample_request],
     appointments = [accept_appointment sample_blank_appointment sample_request ''d1'' 1120],
     notifications = [accept_notification sample_blank_notification sample_request ''d1''],
     profiles = []\<rparr>"
  by (simp add: accepted_store_def handleAccept_def sample_accept_env_def sample_store_def
      update_where_def attempt_def sample_request_def)

lemma handleIgnore_done:
  assumes "ie_session env = Parsed (Some donor)" "donor \<noteq> []" "ie_update_reply env = Done"
  shows "handleIgnore env request st =
         (st\<lparr>requests := update_where rq_id (rq_id request)
                            (ignored_by donor (ie_update_clock env)) (requests st)\<rparr>,
          Some request_ignored, True)"
  using assms by (simp add: handleIgnore_def)

lemma handleIgnoreDonor_requests:
  "requests (fst (fst (handleIgnoreDonor r donorId (st, donors)))) = requests st"
  by (simp add: handleIgnoreDonor_def)

text \<open>
  C1, as the specification states it, fails. Donor d1 has accepted the sample request, so
  its row is no longer pending and is assigned to d1. Donor d2, whose card still shows the
  request as pending, accepts it: the call reports success and the row is assigned to d2.
\<close>

theorem C1_accept_resolved_counterexample:
  "map rq_status (requests accepted_store) = [''accepted''] \<and>
   map rq_donor_id (requests accepted_store) = [Some ''d1''] \<and>
   card_offers_buttons sample_request \<and>
   snd (handleAccept (sample_accept_env ''d2'' 2000 Done) sample_request accepted_store)
     = (Some request_accepted, True) \<and>
   map rq_donor_id
     (requests (fst (handleAccept (sample_accept_env ''d2'' 2000 Done) sample_request accepted_store)))
     = [Some ''d2'']"
  by (simp add: accepted_store_eq handleAccept_def sample_accept_env_def update_where_def
      attempt_def accepted_by_def sample_request_def card_offers_buttons_def)

lemma handleAccept_later_throw:
  assumes "ae_session env = Parsed (Some donor)" "donor \<noteq> []" "ae_update_reply env = Done"
    "ae_appointment_reply env = Raised \<or> ae_notification_reply env = Raised"
  shows "snd (handleAccept env request st) = (Some unexpected_error, False)"
  using assms by (auto simp: handleAccept_def attempt_def Let_def)

text \<open>
  C1, amended. \<open>handleAccept\<close> does not read the status of the row it updates. When the
  session holds a donor id and the update is done, every row with the request's id gets
  that donor, the status accepted and the update instant, whatever its status was, and
  every other row is left as it is; then the donor is told the request is accepted if
  neither the insert of the appointment nor the insert of the notification throws, and
  is shown the unexpected-error toast, with the rows accepted all the same, if one of
  them throws. When the update is not done the store is unchanged.
\<close>

theorem C1_accept_unconditional:
  "(ae_session env = Parsed (Some donor) \<and> donor \<noteq> [] \<and> ae_update_reply env = Done \<longrightarrow>
      requests (fst (handleAccept env request st)) =
        map (\<lambda>r. if rq_id r = rq_id request
                 then r\<lparr>rq_donor_id := Some donor, rq_status := ''accepted'',
                        rq_updated_at := Some (ae_update_clock env)\<rparr>
                 else r) (requests st) \<and>
      (ae_appointment_reply env \<noteq> Raised \<and> ae_notification_reply env \<noteq> Raised \<longrightarrow>
         snd (handleAccept env request st) = (Some request_accepted, True)) \<and>
      (ae_appointment_reply env = Raised \<or> ae_notification_reply env = Raised \<longrightarrow>
         snd (handleAccept env request st) = (Some unexpected_error, False))) \<and>
   (ae_update_reply env \<noteq> Done \<longrightarrow> fst (handleAccept env request st) = st)"
  using handleAccept_requests [of env donor request st] handleAccept_toast [of env donor request st]
    handleAccept_later_throw [of env donor request st] handleAccept_unchanged [of env request st]
  by (simp add: update_where_def accepted_by_def)

theorem C1_accept_unconditional_witness:
  "requests (fst (handleAccept (sample_accept_env ''d2'' 2000 Done) sample_request accepted_store))
     = [sample_request\<lparr>rq_donor_id := Some ''d2'', rq_status := ''accepted'',
                       rq_updated_at := Some 2000\<rparr>] \<and>
   snd (handleAccept (sample_accept_env ''d2'' 2000 Done) sample_request accepted_store)
     = (Some request_accepted, True) \<and>
   requests (fst (handleAccept (sample_accept_env ''d2'' 2000 Raised) sample_request accepted_store))
     = [sample_request\<lparr>rq_donor_id := Some ''d2'', rq_status := ''accepted'',
                       rq_updated_at := Some 2000\<rparr>] \<and>
   snd (handleAccept (sample_accept_env ''d2'' 2000 Raised) sample_request accepted_store)
     = (Some unexpected_error, False) \<and>
   fst (handleAccept ((sample_accept_env ''d2'' 2000 Done)\<lparr>ae_update_reply := Refused ''denied''\<rparr>)
          sample_request accepted_store) = accepted_store"
  using C1_accept_unconditional [of "sample_accept_env ''d2'' 2000 Done" "''d2''"
      sample_request accepted_store]
    C1_accept_unconditional [of "sample_accept_env ''d2'' 2000 Raised" "''d2''"
      sample_request accepted_store]
    C1_accept_unconditional [of "(sample_accept_env ''d2'' 2000 Done)\<lparr>ae_update_reply := Refused ''denied''\<rparr>"
      "''d2''" sample_request accepted_store]
  by (simp add: sample_accept_env_def accepted_store_eq accepted_by_def sample_request_def)

text \<open>
  C3, as the specification states it, fails. A donor who ignores the pending sample
  request rewrites the shared row: its status becomes ignored and it is assigned to that
  donor. After d1 has accepted the request, an ignore by d2 succeeds and replaces both the
  accepted status and the assigned donor.
\<close>

theorem C3_ignore_shared_counterexample:
  "requests sample_store = [sample_request] \<and> rq_status sample_request = ''pending'' \<and>
   handleIgnore (sample_ignore_env ''d2'' 3000) sample_request sample_store =
     (sample_store\<lparr>requests := [sample_request\<lparr>rq_donor_id := Some ''d2'',
                       rq_status := ''ignored'', rq_updated_at := Some 3000\<rparr>]\<rparr>,
      Some request_ignored, True) \<and>
   map rq_status (requests accepted_store) = [''accepted''] \<and>
   map rq_status
     (requests (fst (handleIgnore (sample_ignore_env ''d2'' 3000) sample_request accepted_store)))
     = [''ignored''] \<and>
   map rq_donor_id
     (requests (fst (handleIgnore (sample_ignore_env ''d2'' 3000) sample_request accepted_store)))
     = [Some ''d2'']"
  by (simp add: accepted_store_eq handleIgnore_def sample_ignore_env_def update_where_def
      ignored_by_def accepted_by_def sample_request_def sample_store_def)

text \<open>
  C3, amended. The donor's ignore writes the shared row: when the session holds a donor
  id and the update is done, every row with the request's id gets the status ignored, that
  donor and the update instant, whatever its status was (also after an accept), its other
  fields and all other rows and tables stay as they are, and the call reports success.
  The hospital's \<open>handleIgnoreDonor\<close> never changes a request.
\<close>

theorem C3_ignore_rewrites_status:
  "(ie_session env = Parsed (Some donor) \<and> donor \<noteq> [] \<and> ie_update_reply env = Done \<longrightarrow>
      handleIgnore env request st =
        (st\<lparr>requests :=
             map (\<lambda>r. if rq_id r = rq_id request
                      then r\<lparr>rq_donor_id := Some donor, rq_status := ''ignored'',
                             rq_updated_at := Some (ie_update_clock env)\<rparr>
                      else r) (requests st)\<rparr>,
         Some request_ignored, True)) \<and>
   requests (fst (fst (handleIgnoreDonor r donorId (st, donors)))) = requests st"
  using handleIgnore_done [of env donor request st] handleIgnoreDonor_requests [of r donorId st donors]
  by (simp add: update_where_def ignored_by_def)

theorem C3_ignore_rewrites_status_witness:
  "handleIgnore (sample_ignore_env ''d2'' 3000) sample_request accepted_store =
     (accepted_store\<lparr>requests := [sample_request\<lparr>rq_donor_id := Some ''d2'',
                         rq_status := ''ignored'', rq_updated_at := Some 3000\<rparr>]\<rparr>,
      Some request_ignored, True) \<and>
   requests (fst (fst (handleIgnoreDonor Done ''d1'' (accepted_store, [])))) = requests accepted_store"
  using C3_ignore_rewrites_status [of "sample_ignore_env ''d2'' 3000" "''d2''" sample_request
      accepted_store Done "''d1''" "[]"]
  by (simp add: sample_ignore_env_def accepted_store_eq accepted_by_def sample_request_def)

text \<open>
  C10. When the session holds a donor id and the accept's update is done, a done insert
  adds one appointment for the card's request, its hospital and the donor, with status
  scheduled, time 10:00 AM and a date 24 hours after the instant read when the row is
  built, right after the update has returned; no other call is involved. Whatever the
  reply of that insert, the request rows keep the accepted status and the donor.
\<close>

theorem C10_accept_books_appointment:
  "ae_session env = Parsed (Some donor) \<and> donor \<noteq> [] \<and> ae_update_reply env = Done \<longrightarrow>
     (ae_appointment_reply env = Done \<longrightarrow>
        appointments (fst (handleAccept env request st)) =
          appointments st @
            [(ae_blank_appointment env)\<lparr>ap_request_id := Some (rq_id request),
               ap_hospital_id := rq_hospital_id request, ap_donor_id := donor,
               ap_appointment_date := ae_insert_clock env + 24 * 60 * 60 * 1000,
               ap_appointment_time := Some ''10:00 AM'', ap_status := ''scheduled''\<rparr>]) \<and>
     (ae_appointment_reply env \<noteq> Done \<longrightarrow>
        appointments (fst (handleAccept env request st)) = appointments st) \<and>
     requests (fst (handleAccept env request st)) =
       map (\<lambda>r. if rq_id r = rq_id request
                then r\<lparr>rq_donor_id := Some donor, rq_status := ''accepted'',
                       rq_updated_at := Some (ae_update_clock env)\<rparr>
                else r) (requests st)"
  using handleAccept_requests [of env donor request st]
    handleAccept_appointments [of env donor request st]
  by (simp add: update_where_def accepted_by_def accept_appointment_def)

theorem C10_accept_books_appointment_witness:
  "map ap_status (appointments (fst (handleAccept (sample_accept_env ''d1'' 1000 Done)
       sample_request sample_store))) = [''scheduled''] \<and>
   map ap_appointment_date (appointments (fst (handleAccept (sample_accept_env ''d1'' 1000 Done)
       sample_request sample_store))) = [86401120] \<and>
   map ap_appointment_time (appointments (fst (handleAccept (sample_accept_env ''d1'' 1000 Done)
       sample_request sample_store))) = [Some ''10:00 AM''] \<and>
   appointments (fst (handleAccept (sample_accept_env ''d1'' 1000 (Refused ''denied''))
       sample_request sample_store)) = [] \<and>
   map rq_status (requests (fst (handleAccept (sample_accept_env ''d1'' 1000 (Refused ''denied''))
       sample_request sample_store))) = [''accepted''] \<and>
   map rq_status (requests (fst (handleAccept (sample_accept_env ''d1'' 1000 Raised)
       sample_request sample_store))) = [''accepted'']"
  using C10_accept_books_appointment [of "sample_accept_env ''d1'' 1000 Done" "''d1''"
      sample_request sample_store]
    C10_accept_books_appointment [of "sample_accept_env ''d1'' 1000 (Refused ''denied'')" "''d1''"
      sample_request sample_store]
    C10_accept_books_appointment [of "sample_accept_env ''d1'' 1000 Raised" "''d1''"
      sample_request sample_store]
  by (simp add: sample_accept_env_def sample_store_def sample_request_def)

subsection \<open>Scheduling and status changes\<close>

lemma sendNotificationToDonor_frame:
  "requests (sendNotificationToDonor env donor formData st) = requests st"
  "appointments (sendNotificationToDonor env donor formData st) = appointments st"
  "profiles (sendNotificationToDonor env donor formData st) = profiles st"
  by (simp_all add: sendNotificationToDonor_def attempt_def)

lemma handleSubmit_no_user:
  "se_user env = None \<or> se_user env = Some [] \<Longrightarrow>
   handleSubmit env donor requestId formData st = (st, Some authentication_required, False)"
  by (auto simp: handleSubmit_def)

lemma handleSubmit_missing:
  "se_user env = Some user \<Longrightarrow> user \<noteq> [] \<Longrightarrow>
   date formData = [] \<or> time formData = [] \<or> hospitalContact formData = [] \<Longrightarrow>
   handleSubmit env donor requestId formData st = (st, Some missing_information, False)"
  by (auto simp: handleSubmit_def)

lemma handleSubmit_invalid_date:
  "se_user env = Some user \<Longrightarrow> user \<noteq> [] \<Longrightarrow>
   date formData \<noteq> [] \<Longrightarrow> time formData \<noteq> [] \<Longrightarrow> hospitalContact formData \<noteq> [] \<Longrightarrow>
   se_parse env (date formData @ ''T'' @ time formData) = None \<Longrightarrow>
   handleSubmit env donor requestId formData st = (st, Some scheduling_failed, False)"
  by (simp add: handleSubmit_def)

lemma handleSubmit_appointments:
  "se_user env = Some user \<Longrightarrow> user \<noteq> [] \<Longrightarrow>
   date formData \<noteq> [] \<Longrightarrow> time formData \<noteq> [] \<Longrightarrow> hospitalContact formData \<noteq> [] \<Longrightarrow>
   se_parse env (date formData @ ''T'' @ time formData) = Some instant \<Longrightarrow>
   se_appointment_reply env = Done \<Longrightarrow>
   appointments (fst (handleSubmit env donor requestId formData st)) =
     appointments st @
       [form_appointment (se_blank_appointment env) donor user requestId formData instant]"
  by (simp add: handleSubmit_def Let_def sendNotificationToDonor_frame split: option.splits)

lemma handleSubmit_requests:
  "se_user env = Some user \<Longrightarrow> user \<noteq> [] \<Longrightarrow>
   date formData \<noteq> [] \<Longrightarrow> time formData \<noteq> [] \<Longrightarrow> hospitalContact formData \<noteq> [] \<Longrightarrow>
   se_parse env (date formData @ ''T'' @ time formData) = Some instant \<Longrightarrow>
   se_appointment_reply env = Done \<Longrightarrow> se_request_reply env = Done \<Longrightarrow> i \<noteq> [] \<Longrightarrow>
   requests (fst (handleSubmit env donor (Some i) formData st)) =
     update_where rq_id i (\<lambda>q. q\<lparr>rq_status := ''Scheduled''\<rparr>) (requests st) \<and>
   snd (handleSubmit env donor (Some i) formData st) =
     (Some (appointment_scheduled env donor formData), True)"
  by (simp add: handleSubmit_def Let_def sendNotificationToDonor_frame given_request_def)

lemma updateRequestStatus_done:
  "updateRequestStatus Done i s (st, listed) =
     ((st\<lparr>requests := update_where rq_id i (\<lambda>q. q\<lparr>rq_status := status_name s\<rparr>) (requests st)\<rparr>,
       update_where rq_id i (\<lambda>q. q\<lparr>rq_status := status_name s\<rparr>) listed),
      Toast ''Status Updated'' (''Request status updated to '' @ status_name s) Default, True)"
  by (simp add: updateRequestStatus_def update_where_def)

lemma updateRequestStatus_failed:
  "r \<noteq> Done \<Longrightarrow> updateRequestStatus r i s (st, listed) =
     ((st, listed),
      Toast ''Update Failed'' ''Failed to update request status. Please try again.'' Destructive,
      False)"
  by (simp add: updateRequestStatus_def)

lemmas sample_submit_defs =
  sample_form_def sample_submit_env_def sample_parse_def sample_formatDate_def
  sample_form_donor_def sample_request_def sample_store_def store_with_status_def

lemmas submit_defs =
  handleSubmit_def given_request_def sendNotificationToDonor_def attempt_def update_where_def
  form_appointment_def appointment_scheduled_def

lemma handleSubmit_no_request:
  "given_request requestId = None \<Longrightarrow>
   requests (fst (handleSubmit env donor requestId formData st)) = requests st"
  by (simp add: handleSubmit_def Let_def sendNotificationToDonor_frame
      split: option.splits)

text \<open>
  C2, as the specification states it, fails. Two lists of the hospital show the pending
  sample request. In the first the request is ignored, which is an edge. In the second,
  which still shows the row as Pending and so still offers Accept, the request is then
  accepted: the update is reported as done and the row, whose status Ignored is terminal,
  is Accepted. That is no edge of the state machine and no invalid-transition failure.
\<close>

theorem C2_status_edges_counterexample:
  "spec_edge ''Pending'' ''Ignored'' \<and>
   updateRequestStatus Done ''r1'' Ignored
       (store_with_status ''Pending'', [sample_request\<lparr>rq_status := ''Pending''\<rparr>])
     = ((store_with_status ''Ignored'', [sample_request\<lparr>rq_status := ''Ignored''\<rparr>]),
        Toast ''Status Updated'' ''Request status updated to Ignored'' Default, True) \<and>
   \<not> spec_edge ''Ignored'' ''Accepted'' \<and>
   list_offers (sample_request\<lparr>rq_status := ''Pending''\<rparr>) = [Accepted, Ignored] \<and>
   updateRequestStatus Done ''r1'' Accepted
       (store_with_status ''Ignored'', [sample_request\<lparr>rq_status := ''Pending''\<rparr>])
     = ((store_with_status ''Accepted'', [sample_request\<lparr>rq_status := ''Accepted''\<rparr>]),
        Toast ''Status Updated'' ''Request status updated to Accepted'' Default, True)"
  by (simp add: spec_edge_def sample_submit_defs update_where_def updateRequestStatus_def
      list_offers_def)

text \<open>
  C2, amended. A status change does not depend on the status the row has.
  \<^item> \<open>updateRequestStatus\<close>, when its update is done, sets every row with the id, in the
    store and in the list, to the status it is given, whatever the row's status was, and
    reports the status as updated; when its update is not done it leaves the store and the
    list unchanged and reports a failed update.
  \<^item> The list offers Accept and Ignore on exactly the rows it shows as Pending, and
    nothing on the others.
  \<^item> Scheduling changes no request when the form has no request id, and the form has
    none as \<open>selectedRequestId\<close> is never set.
  \<^item> If \<open>handleSubmit\<close> is given a request id that is not empty, by a signed-in user,
    with date, time and hospital contact filled in, a date and time that parse, and with
    the insert of the appointment and the update of the request both done, then every row
    with that id becomes Scheduled, whatever its status was, and the appointment is
    reported as scheduled.
\<close>

theorem C2_status_unconditional:
  "updateRequestStatus Done i s (st, listed) =
     ((st\<lparr>requests :=
          map (\<lambda>q. if rq_id q = i then q\<lparr>rq_status := status_name s\<rparr> else q) (requests st)\<rparr>,
       map (\<lambda>q. if rq_id q = i then q\<lparr>rq_status := status_name s\<rparr> else q) listed),
      Toast ''Status Updated'' (''Request status updated to '' @ status_name s) Default, True) \<and>
   (r \<noteq> Done \<longrightarrow>
      updateRequestStatus r i s (st, listed) =
        ((st, listed),
         Toast ''Update Failed'' ''Failed to update request status. Please try again.'' Destructive,
         False)) \<and>
   (list_offers request = [Accepted, Ignored] \<longleftrightarrow> rq_status request = ''Pending'') \<and>
   (list_offers request = [] \<longleftrightarrow> rq_status request \<noteq> ''Pending'') \<and>
   (given_request requestId = None \<longrightarrow>
      requests (fst (handleSubmit env donor requestId formData st)) = requests st) \<and>
   given_request selectedRequestId = None \<and>
   (se_user env = Some user \<and> user \<noteq> [] \<and> date formData \<noteq> [] \<and> time formData \<noteq> [] \<and>
    hospitalContact formData \<noteq> [] \<and>
    se_parse env (date formData @ ''T'' @ time formData) = Some instant \<and>
    se_appointment_reply env = Done \<and> se_request_reply env = Done \<and> i \<noteq> [] \<longrightarrow>
      requests (fst (handleSubmit env donor (Some i) formData st)) =
        map (\<lambda>q. if rq_id q = i then q\<lparr>rq_status := ''Scheduled''\<rparr> else q) (requests st) \<and>
      snd (handleSubmit env donor (Some i) formData st) =
        (Some (appointment_scheduled env donor formData), True))"
  using handleSubmit_requests [of env user formData instant i donor st]
    handleSubmit_no_request [of requestId env donor formData st]
    updateRequestStatus_done [of i s st listed] updateRequestStatus_failed [of r i s st listed]
  by (simp add: update_where_def list_offers_def selectedRequestId_def given_request_def)

theorem C2_status_unconditional_witness:
  "fst (updateRequestStatus (Refused ''denied'') ''r1'' Accepted (store_with_status ''Ignored'', []))
     = (store_with_status ''Ignored'', []) \<and>
   list_offers (sample_request\<lparr>rq_status := ''Ignored''\<rparr>) = [] \<and>
   map rq_status (requests (fst (handleSubmit sample_submit_env sample_form_donor selectedRequestId
       sample_form (store_with_status ''Ignored'')))) = [''Ignored''] \<and>
   map rq_status (requests (fst (handleSubmit sample_submit_env sample_form_donor (Some ''r1'')
       sample_form (store_with_status ''Ignored'')))) = [''Scheduled'']"
  using C2_status_unconditional [where i = "''r1''" and s = Accepted
      and st = "store_with_status ''Ignored''" and listed = "[]" and r = "Refused ''denied''"
      and request = "sample_request\<lparr>rq_status := ''Ignored''\<rparr>"
      and requestId = selectedRequestId and env = sample_submit_env and donor = sample_form_donor
      and formData = sample_form and user = "''h1''" and instant = 3492000000]
  by (simp add: sample_submit_defs selectedRequestId_def given_request_def)

lemma submitForm_in_window:
  "cal_day_of cal (getMinDate cal rendered) = Some lo \<Longrightarrow>
   cal_day_of cal (getMaxDate cal rendered) = Some hi \<Longrightarrow>
   cal_day_of cal (date formData) = Some d \<Longrightarrow> lo \<le> d \<Longrightarrow> d \<le> hi \<Longrightarrow>
   date formData \<noteq> [] \<Longrightarrow> time formData \<noteq> [] \<Longrightarrow> hospitalContact formData \<noteq> [] \<Longrightarrow>
   submitForm cal rendered env donor requestId formData st =
     (Valid, handleSubmit env donor requestId formData st)"
  by (simp add: submitForm_def form_valid_def not_before_def not_after_def)





subsection \<open>Notifications\<close>

lemma order_desc_mset: "mset (order_desc key rows) = mset rows"
  by (simp add: order_desc_def)

lemma order_desc_sorted: "sorted_wrt (\<lambda>a b. key b \<le> key a) (order_desc key rows)"
proof -
  have "sorted (map (\<lambda>r. - key r) (order_desc key rows))"
    by (simp add: order_desc_def)
  then show ?thesis
    by (simp add: sorted_wrt_map)
qed

lemma select_notifications_mset:
  "mset (select_notifications userId st) =
     filter_mset (\<lambda>n. nt_user_id n = userId) (mset (notifications st))"
  by (simp add: select_notifications_def order_desc_mset)

lemma select_notifications_sorted:
  "sorted_wrt (\<lambda>a b. nt_created_at b \<le> nt_created_at a) (select_notifications userId st)"
  by (simp add: select_notifications_def order_desc_sorted)

lemma mark_twice_map:
  "map (\<lambda>n. if nt_id n = i then n\<lparr>nt_is_read := True\<rparr> else n)
     (map (\<lambda>n. if nt_id n = i then n\<lparr>nt_is_read := True\<rparr> else n) xs)
   = map (\<lambda>n. if nt_id n = i then n\<lparr>nt_is_read := True\<rparr> else n) xs"
  by (induction xs) auto

lemma markAsRead_same_reply:
  "fst (markAsRead r i (fst (markAsRead r i s))) = fst (markAsRead r i s)"
  by (cases s; cases r) (simp_all add: markAsRead_def attempt_def update_where_def mark_twice_map)

lemma markAsRead_again:
  "fst (markAsRead r2 i (fst (markAsRead Done i s))) = fst (markAsRead Done i s)"
  by (cases s) (simp add: markAsRead_def attempt_def update_where_def mark_twice_map)

lemma markAsRead_toast:
  "r \<noteq> Raised \<Longrightarrow> snd (markAsRead r i s) = Some marked_as_read"
  by (cases s) (simp add: markAsRead_def)

lemma only_flag_map:
  "list_all2 (\<lambda>a b. b = a \<or> b = a\<lparr>nt_is_read := True\<rparr>) xs
     (map (\<lambda>n. if nt_id n = i then n\<lparr>nt_is_read := True\<rparr> else n) xs)"
  by (induction xs) auto

lemma markAsRead_only_flag:
  "list_all2 (\<lambda>a b. b = a \<or> b = a\<lparr>nt_is_read := True\<rparr>)
     (notifications (fst s)) (notifications (fst (fst (markAsRead r i s)))) \<and>
   list_all2 (\<lambda>a b. b = a \<or> b = a\<lparr>nt_is_read := True\<rparr>)
     (snd s) (snd (fst (markAsRead r i s))) \<and>
   requests (fst (fst (markAsRead r i s))) = requests (fst s) \<and>
   appointments (fst (fst (markAsRead r i s))) = appointments (fst s) \<and>
   profiles (fst (fst (markAsRead r i s))) = profiles (fst s)"
  by (cases s) (simp add: markAsRead_def attempt_def update_where_def only_flag_map list.rel_refl)

lemma sample_bell_eq:
  "sample_bell =
    (sample_store\<lparr>notifications := sample_notifications\<rparr>,
     [\<lparr>nt_id = ''n3'', nt_title = [], nt_message = [], nt_type = [], nt_is_read = False,
       nt_created_at = 300\<rparr>,
      \<lparr>nt_id = ''n1'', nt_title = [], nt_message = [], nt_type = [], nt_is_read = False,
       nt_created_at = 100\<rparr>])"
  by (simp add: sample_bell_def fetchNotifications_def select_notifications_def order_desc_def
      sample_notifications_def sample_blank_notification_def sample_store_def
      notification.truncate_def)

text \<open>
  C8. Marking a notification as read a second time, with the same reply of the store,
  leaves the store and the list as the first call left them; after a call whose update
  was done, a further call leaves them unchanged whatever the store replies. Unless the
  call throws, it reports success, also for a notification that is already read. A call
  changes nothing but read flags, which it can only set: every row and every listed
  notification is as before or as before with the flag set, and the other tables are
  untouched.
\<close>

theorem C8_markAsRead_idempotent:
  "fst (markAsRead r i (fst (markAsRead r i s))) = fst (markAsRead r i s) \<and>
   fst (markAsRead r2 i (fst (markAsRead Done i s))) = fst (markAsRead Done i s) \<and>
   (r \<noteq> Raised \<longrightarrow> snd (markAsRead r i s) = Some marked_as_read) \<and>
   list_all2 (\<lambda>a b. b = a \<or> b = a\<lparr>nt_is_read := True\<rparr>)
     (notifications (fst s)) (notifications (fst (fst (markAsRead r i s)))) \<and>
   list_all2 (\<lambda>a b. b = a \<or> b = a\<lparr>nt_is_read := True\<rparr>)
     (snd s) (snd (fst (markAsRead r i s))) \<and>
   requests (fst (fst (markAsRead r i s))) = requests (fst s) \<and>
   appointments (fst (fst (markAsRead r i s))) = appointments (fst s) \<and>
   profiles (fst (fst (markAsRead r i s))) = profiles (fst s)"
  using markAsRead_same_reply [of r i s] markAsRead_again [of r2 i s] markAsRead_toast [of r i s]
    markAsRead_only_flag [of s r i]
  by blast

theorem C8_markAsRead_idempotent_witness:
  "map nt_is_read (snd (fst (markAsRead Done ''n3'' sample_bell))) = [True, False] \<and>
   fst (markAsRead Done ''n3'' (fst (markAsRead Done ''n3'' sample_bell)))
     = fst (markAsRead Done ''n3'' sample_bell) \<and>
   snd (markAsRead Done ''n3'' (fst (markAsRead Done ''n3'' sample_bell))) = Some marked_as_read"
  using C8_markAsRead_idempotent [of Done "''n3''" sample_bell Done]
    C8_markAsRead_idempotent [of Done "''n3''" "fst (markAsRead Done ''n3'' sample_bell)" Done]
  by (simp add: sample_bell_eq markAsRead_def)

lemma fetchNotifications_fallback:
  "r \<noteq> Done \<Longrightarrow> fetchNotifications r userId clock (st, listed) = (st, getMockNotifications clock)"
  by (simp add: fetchNotifications_def)

lemma getMockNotifications_sorted:
  "t2 \<le> t1 + 86400000 \<Longrightarrow> t3 \<le> t2 + 86400000 \<Longrightarrow>
   sorted_wrt (\<lambda>a b. nt_created_at b \<le> nt_created_at a) (getMockNotifications (t1, t2, t3))"
  by (simp add: getMockNotifications_def)

text \<open>
  C9, as the specification states it, fails. User d1 has the notifications n1 and n3. The
  query for d1 returns an error: the list presented holds the notifications 1, 2 and 3 of
  \<open>getMockNotifications\<close>, none of which is a row of d1.
\<close>

theorem C9_mock_list_counterexample:
  "map nt_id (filter (\<lambda>n. nt_user_id n = ''d1'') sample_notifications) = [''n1'', ''n3''] \<and>
   map nt_id (snd (fetchNotifications (Refused ''permission denied'') ''d1'' (1000, 1000, 1000)
       (sample_store\<lparr>notifications := sample_notifications\<rparr>, []))) = [''1'', ''2'', ''3'']"
  by (simp add: fetchNotifications_def getMockNotifications_def sample_notifications_def
      sample_blank_notification_def)

text \<open>
  C9, amended. When the query is done, the list \<open>fetchNotifications\<close> presents for a user
  is the rows of the query: as a multiset they are exactly the rows of \<open>notifications\<close>
  whose user is that user, and each one is at least as new as every one after it. When
  the query returns an error or throws, the list presented is the three notifications of
  \<open>getMockNotifications\<close>, whatever the rows of the user are; these too are newest first
  when each of the three readings of the clock is at most a day after the one before.
\<close>

theorem C9_notifications_or_mock:
  "snd (fetchNotifications Done userId clock (st, listed)) =
     map notification.truncate (select_notifications userId st) \<and>
   mset (select_notifications userId st) =
     filter_mset (\<lambda>n. nt_user_id n = userId) (mset (notifications st)) \<and>
   sorted_wrt (\<lambda>a b. nt_created_at b \<le> nt_created_at a) (select_notifications userId st) \<and>
   sorted_wrt (\<lambda>a b. nt_created_at b \<le> nt_created_at a)
     (snd (fetchNotifications Done userId clock (st, listed))) \<and>
   (r \<noteq> Done \<longrightarrow>
      snd (fetchNotifications r userId clock (st, listed)) = getMockNotifications clock) \<and>
   (t2 \<le> t1 + 86400000 \<and> t3 \<le> t2 + 86400000 \<longrightarrow>
      sorted_wrt (\<lambda>a b. nt_created_at b \<le> nt_created_at a) (getMockNotifications (t1, t2, t3)))"
  using select_notifications_mset [of userId st] select_notifications_sorted [of userId st]
    fetchNotifications_fallback [of r userId clock st listed]
    getMockNotifications_sorted [of t2 t1 t3]
  by (simp add: fetchNotifications_def sorted_wrt_map notification.truncate_def)

theorem C9_notifications_or_mock_witness:
  "map nt_id (snd sample_bell) = [''n3'', ''n1''] \<and>
   map nt_created_at (snd sample_bell) = [300, 100] \<and>
   sorted_wrt (\<lambda>a b. nt_created_at b \<le> nt_created_at a) (snd sample_bell) \<and>
   snd (fetchNotifications Raised ''d1'' (1000, 1002, 1003)
       (sample_store\<lparr>notifications := sample_notifications\<rparr>, []))
     = getMockNotifications (1000, 1002, 1003) \<and>
   map nt_created_at (getMockNotifications (1000, 1002, 1003)) = [1000, - 86398998, - 172798997] \<and>
   sorted_wrt (\<lambda>a b. nt_created_at b \<le> nt_created_at a) (getMockNotifications (1000, 1002, 1003))"
  using C9_notifications_or_mock [where userId = "''d1''" and clock = "(1000, 1002, 1003)"
      and st = "sample_store\<lparr>notifications := sample_notifications\<rparr>" and listed = "[]"
      and r = Raised and ?t1.0 = 1000 and ?t2.0 = 1002 and ?t3.0 = 1003]
  by (simp add: sample_bell_eq sample_bell_def fetchNotifications_def getMockNotifications_def)

subsection \<open>Inventory\<close>

lemma parseInt_minus_five: "parseInt ''-5'' = Some (- 5)"
  by (simp add: parseInt_def is_space_def is_digit_def digits_value_def digit_value_def Let_def)

lemma handleQuickUpdate_nonneg:
  "nonneg d \<Longrightarrow> nonneg (fst (handleQuickUpdate type change d))"
  by (auto simp: nonneg_def handleQuickUpdate_def list_all_iff)

lemma quick_updates_nonneg:
  "nonneg d \<Longrightarrow> nonneg (quick_updates clicks d)"
  by (induction clicks d rule: quick_updates.induct) (auto simp: handleQuickUpdate_nonneg)

text \<open>
  C6 holds for the quick-update buttons (\<open>quick_updates_nonneg\<close>) and fails for the edit
  field. With five units of A+ in a non-negative inventory, the edit field is opened, -5
  is typed and saved: the counter of A+ is -5.
\<close>

theorem C6_edit_stores_negative:
  "nonneg sample_dashboard \<and>
   parseInt ''-5'' = Some (- 5) \<and>
   handleEditSave ''A+'' (changeTempValue ''-5'' (handleEditStart ''A+'' 5 sample_dashboard)) =
     (\<lparr>bloodInventory = [\<lparr>bt_type = ''A+'', bt_units = - 5\<rparr>, \<lparr>bt_type = ''O-'', bt_units = 0\<rparr>],
       editingType = None, tempValue = - 5\<rparr>,
      Toast ''Blood Inventory Updated'' ''A+ blood units updated to -5'' Default) \<and>
   \<not> nonneg (fst (handleEditSave ''A+''
                   (changeTempValue ''-5'' (handleEditStart ''A+'' 5 sample_dashboard))))"
  by (simp add: nonneg_def handleEditSave_def changeTempValue_def handleEditStart_def
      sample_dashboard_def parseInt_minus_five show_int_def show_nat.simps)

text \<open>
  C7, as the specification states it, fails. A click on minus at zero units of O- is
  reported as a decrease by 1, like any other, and a quick update of A+ by -8 at five units
  leaves zero units.
\<close>

theorem C7_decrement_clamped_counterexample:
  "map bt_units (bloodInventory sample_dashboard) = [5, 0] \<and>
   handleQuickUpdate ''O-'' (quick_change Minus) sample_dashboard =
     (sample_dashboard, Toast ''Quick Update'' ''O- blood units decreased by 1'' Default) \<and>
   handleQuickUpdate ''A+'' (- 8) sample_dashboard =
     (sample_dashboard\<lparr>bloodInventory :=
        [\<lparr>bt_type = ''A+'', bt_units = 0\<rparr>, \<lparr>bt_type = ''O-'', bt_units = 0\<rparr>]\<rparr>,
      Toast ''Quick Update'' ''A+ blood units decreased by 8'' Default)"
  by (simp add: handleQuickUpdate_def sample_dashboard_def show_int_def show_nat.simps)

text \<open>
  C7, amended. \<open>handleQuickUpdate\<close> never rejects. Every counter of the given type whose
  sum with the change would be negative becomes 0, every other counter of that type
  becomes that sum, the counters of the other types and the order of the inventory stay
  as they are, and the same toast is shown in all cases.
\<close>

theorem C7_quick_update_clamps:
  "length (bloodInventory (fst (handleQuickUpdate type change d))) = length (bloodInventory d) \<and>
   (k < length (bloodInventory d) \<longrightarrow>
      bt_type (bloodInventory (fst (handleQuickUpdate type change d)) ! k)
        = bt_type (bloodInventory d ! k) \<and>
      (bt_type (bloodInventory d ! k) = type \<and> bt_units (bloodInventory d ! k) + change < 0 \<longrightarrow>
         bt_units (bloodInventory (fst (handleQuickUpdate type change d)) ! k) = 0) \<and>
      (bt_type (bloodInventory d ! k) = type \<and> 0 \<le> bt_units (bloodInventory d ! k) + change \<longrightarrow>
         bt_units (bloodInventory (fst (handleQuickUpdate type change d)) ! k)
           = bt_units (bloodInventory d ! k) + change) \<and>
      (bt_type (bloodInventory d ! k) \<noteq> type \<longrightarrow>
         bloodInventory (fst (handleQuickUpdate type change d)) ! k = bloodInventory d ! k)) \<and>
   snd (handleQuickUpdate type change d) =
     Toast ''Quick Update''
       (type @ '' blood units '' @ (if change > 0 then ''increased'' else ''decreased'')
        @ '' by '' @ show_int \<bar>change\<bar>) Default"
  by (simp add: handleQuickUpdate_def)

theorem C7_quick_update_clamps_witness:
  "bt_units (bloodInventory (fst (handleQuickUpdate ''A+'' (- 8) sample_dashboard)) ! 0) = 0 \<and>
   bt_units (bloodInventory (fst (handleQuickUpdate ''A+'' 1 sample_dashboard)) ! 0) = 6 \<and>
   bloodInventory (fst (handleQuickUpdate ''A+'' (- 8) sample_dashboard)) ! 1
     = \<lparr>bt_type = ''O-'', bt_units = 0\<rparr> \<and>
   snd (handleQuickUpdate ''A+'' (- 8) sample_dashboard)
     = Toast ''Quick Update'' ''A+ blood units decreased by 8'' Default"
  using C7_quick_update_clamps [of "''A+''" "- 8" sample_dashboard 0]
    C7_quick_update_clamps [of "''A+''" "- 8" sample_dashboard 1]
    C7_quick_update_clamps [of "''A+''" 1 sample_dashboard 0]
  by (simp add: sample_dashboard_def handleQuickUpdate_def show_int_def show_nat.simps)

end
